theory Spec2Isabelle
  imports Complex_Main "HOL-Library.Word" "HOL-Library.Log_Nat"
begin

section \<open>ImageGrouper.js: grouping images on blank delimiter images\<close>

text \<open>
  A shallow embedding of the class \<^verbatim>\<open>ImageGrouper\<close> of \<^verbatim>\<open>src/ImageGrouper.js\<close>.
  Every method takes its receiver \<open>self\<close> explicitly, also where the body never reads
  \<^verbatim>\<open>this.config\<close>. A JavaScript number is modelled by its exact value: channel values
  and image dimensions are \<open>int\<close> (the \<^verbatim>\<open>width\<close> and \<^verbatim>\<open>height\<close> of an image element are
  integers), thresholds and averages are \<open>real\<close>, and the one division of the classifier
  rounds its quotient to the nearest double, as the language does. \<^verbatim>\<open>Math.sqrt\<close> is the
  real square root, of which the code returns the nearest double. An argument that may be
  \<^verbatim>\<open>undefined\<close> is an \<open>option\<close>, with \<open>None\<close> for \<^verbatim>\<open>undefined\<close>. Strings are lists of
  8-bit characters. \<^verbatim>\<open>NaN\<close>, infinities and values of another JavaScript type are outside
  the model.
\<close>

subsection \<open>Data\<close>

text \<open>The object \<^verbatim>\<open>{ r, g, b }\<close> that \<^verbatim>\<open>hexToRgb\<close> returns.\<close>

record rgb =
  r :: int
  g :: int
  b :: int

text \<open>
  \<^verbatim>\<open>this.config\<close>, and the object handed to the constructor, in which a key may be absent
  (\<open>None\<close>).
\<close>

record config =
  delimiterColor :: string
  colorThreshold :: real
  groupFolder :: bool
  namingScheme :: string

record configArg =
  arg_delimiterColor :: "string option"
  arg_colorThreshold :: "real option"
  arg_groupFolder :: "bool option"
  arg_namingScheme :: "string option"

record imageGrouper =
  config :: config

text \<open>
  An image element: its declared \<^verbatim>\<open>width\<close> and \<^verbatim>\<open>height\<close>, and what
  \<^verbatim>\<open>ctx.getImageData(x, y, 1, 1).data\<close> holds once the image is drawn on a canvas of its
  own size: the four bytes R, G, B, A of a \<^verbatim>\<open>Uint8ClampedArray\<close>. Decoding and the canvas
  belong to the browser; the image brings the bytes of every coordinate with it.
\<close>

type_synonym pixelData = "8 word \<times> 8 word \<times> 8 word \<times> 8 word"

record htmlImage =
  width :: int
  height :: int
  getImageData :: "int \<Rightarrow> int \<Rightarrow> pixelData"

text \<open>The argument \<^verbatim>\<open>options\<close> of \<^verbatim>\<open>groupImages\<close>; \<^verbatim>\<open>{}\<close> has every key absent.\<close>

record options =
  opt_blankColor :: "string option"
  opt_threshold :: "real option"
  opt_saveGroups :: "bool option"

text \<open>The object \<^verbatim>\<open>{ image, newName }\<close> that \<^verbatim>\<open>saveImage\<close> returns.\<close>

record savedImage =
  saved_image :: htmlImage
  newName :: string

text \<open>
  \<^verbatim>\<open>groupImages\<close> returns the groups themselves, or what \<^verbatim>\<open>saveGroups\<close> made of them.
\<close>

datatype grouped =
  Groups "htmlImage list list"
| SavedGroups "savedImage list list"

subsection \<open>The constructor\<close>

definition newImageGrouper :: "configArg \<Rightarrow> imageGrouper" where
  "newImageGrouper cfg =
     \<lparr>config =
        \<lparr>delimiterColor = (case arg_delimiterColor cfg of None \<Rightarrow> ''#FFFFFF'' | Some v \<Rightarrow> v),
         colorThreshold = (case arg_colorThreshold cfg of None \<Rightarrow> 10 | Some v \<Rightarrow> v),
         groupFolder = (case arg_groupFolder cfg of None \<Rightarrow> True | Some v \<Rightarrow> v),
         namingScheme = (case arg_namingScheme cfg of None \<Rightarrow> ''group'' | Some v \<Rightarrow> v)\<rparr>\<rparr>"

subsection \<open>hexToRgb\<close>

text \<open>
  The pattern \<^verbatim>\<open>/^#?([a-f\d]{2})([a-f\d]{2})([a-f\d]{2})$/i\<close>. The class \<^verbatim>\<open>[a-f\d]\<close>
  under the flag \<^verbatim>\<open>i\<close> holds the decimal digits and the letters a to f of either case.
\<close>

definition hexClass :: "char \<Rightarrow> bool" where
  "hexClass c = (c \<in> set ''0123456789'' \<or> c \<in> set ''abcdef'' \<or> c \<in> set ''ABCDEF'')"

text \<open>One group \<^verbatim>\<open>([a-f\d]{2})\<close> at the head of the input: the capture and the rest.\<close>

definition hexPair :: "string \<Rightarrow> (string \<times> string) option" where
  "hexPair s =
     (case s of
        c # d # rest \<Rightarrow> if hexClass c \<and> hexClass d then Some ([c, d], rest) else None
      | _ \<Rightarrow> None)"

text \<open>
  \<^verbatim>\<open>exec\<close>: the optional \<^verbatim>\<open>#\<close>, three groups, then the end of the input. \<^verbatim>\<open>#\<close> is
  not in the class, so giving the \<^verbatim>\<open>#\<close> back never yields a match.
\<close>

definition execHex :: "string \<Rightarrow> (string \<times> string \<times> string) option" where
  "execHex hex =
     (let s = (case hex of [] \<Rightarrow> hex | c # t \<Rightarrow> if c = CHR ''#'' then t else hex) in
      case hexPair s of
        None \<Rightarrow> None
      | Some (g1, s1) \<Rightarrow>
          (case hexPair s1 of
             None \<Rightarrow> None
           | Some (g2, s2) \<Rightarrow>
               (case hexPair s2 of
                  None \<Rightarrow> None
                | Some (g3, s3) \<Rightarrow> if s3 = [] then Some (g1, g2, g3) else None)))"

text \<open>
  \<^verbatim>\<open>parseInt(s, 16)\<close> on a captured group, which is two characters of the class: the
  value of the digits in base 16.
\<close>

definition hexDigitValue :: "char \<Rightarrow> int" where
  "hexDigitValue c =
     (if c \<in> set ''0123456789'' then of_char c - 48
      else if c \<in> set ''abcdef'' then of_char c - 87
      else of_char c - 55)"

definition parseInt16 :: "string \<Rightarrow> int" where
  "parseInt16 s = foldl (\<lambda>acc c. 16 * acc + hexDigitValue c) 0 s"

definition hexToRgb :: "imageGrouper \<Rightarrow> string \<Rightarrow> rgb" where
  "hexToRgb self hex =
     (case execHex hex of
        Some (g1, g2, g3) \<Rightarrow> \<lparr>r = parseInt16 g1, g = parseInt16 g2, b = parseInt16 g3\<rparr>
      | None \<Rightarrow> \<lparr>r = 255, g = 255, b = 255\<rparr>)"

subsection \<open>colorDifference\<close>

definition colorDifference :: "imageGrouper \<Rightarrow> string \<Rightarrow> string \<Rightarrow> real" where
  "colorDifference self hex1 hex2 =
     (let rgb1 = hexToRgb self hex1;
          rgb2 = hexToRgb self hex2
      in sqrt (of_int ((r rgb1 - r rgb2) ^ 2 + (g rgb1 - g rgb2) ^ 2 + (b rgb1 - b rgb2) ^ 2)))"

subsection \<open>Double arithmetic\<close>

text \<open>
  The result of an arithmetic operation is the double nearest to the exact result, ties
  going to the even significand. \<open>toDouble x\<close> is that double, for \<open>\<bar>x\<bar>\<close> below \<open>2 ^ 1024\<close>:
  \<open>\<bar>x\<bar>\<close> is counted in units of the smallest positive double \<open>2 ^ -1074\<close>; a count of more
  than 53 bits is cut down to 53 bits by \<open>shift\<close>, so that doubles are \<open>2 ^ shift\<close> units
  apart around \<open>\<bar>x\<bar>\<close>; and the count is rounded to the nearest multiple of that spacing.
\<close>

definition roundHalfEven :: "real \<Rightarrow> int" where
  "roundHalfEven y =
     (let f = \<lfloor>y\<rfloor>; d = y - of_int f
      in if d < 1 / 2 then f else if 1 / 2 < d then f + 1 else if even f then f else f + 1)"

definition toDouble :: "real \<Rightarrow> real" where
  "toDouble x =
     (let scaled = \<bar>x\<bar> * 2 ^ 1074;
          shift = floorlog 2 (nat \<lfloor>scaled\<rfloor>) - 53;
          m = roundHalfEven (scaled / 2 ^ shift)
      in sgn x * of_int m * 2 ^ shift / 2 ^ 1074)"

subsection \<open>isBlankImage\<close>

definition samplePoints :: "htmlImage \<Rightarrow> (int \<times> int) list" where
  "samplePoints img =
     [(\<lfloor>(of_int (width img) :: real) / 2\<rfloor>, \<lfloor>(of_int (height img) :: real) / 2\<rfloor>),
      (\<lfloor>(of_int (width img) :: real) / 4\<rfloor>, \<lfloor>(of_int (height img) :: real) / 4\<rfloor>),
      (\<lfloor>(3 * of_int (width img) :: real) / 4\<rfloor>, \<lfloor>(3 * of_int (height img) :: real) / 4\<rfloor>)]"

text \<open>The local \<^verbatim>\<open>diff\<close> of the loop body, for one sample point.\<close>

definition pointDiff :: "htmlImage \<Rightarrow> rgb \<Rightarrow> int \<times> int \<Rightarrow> int" where
  "pointDiff img targetRGB point =
     (case getImageData img (fst point) (snd point) of
        (p0, p1, p2, p3) \<Rightarrow>
          \<bar>uint p0 - r targetRGB\<bar> + \<bar>uint p1 - g targetRGB\<bar> + \<bar>uint p2 - b targetRGB\<bar>)"

text \<open>The loop over the sample points, from \<^verbatim>\<open>totalDiff = 0\<close>.\<close>

definition totalDiff :: "imageGrouper \<Rightarrow> htmlImage \<Rightarrow> string \<Rightarrow> int" where
  "totalDiff self img blankColor =
     (let targetRGB = hexToRgb self blankColor
      in foldl (\<lambda>total point. total + pointDiff img targetRGB point) 0 (samplePoints img))"

text \<open>
  \<^verbatim>\<open>totalDiff / samplePoints.length\<close>: both operands are integers, and the quotient is
  rounded to a double.
\<close>

definition avgDiff :: "imageGrouper \<Rightarrow> htmlImage \<Rightarrow> string \<Rightarrow> real" where
  "avgDiff self img blankColor =
     toDouble (of_int (totalDiff self img blankColor) / of_nat (length (samplePoints img)))"

text \<open>
  The parameters \<^verbatim>\<open>blankColor = '#FFFFFF'\<close> and \<^verbatim>\<open>threshold = 10\<close> take their default
  when the argument is \<^verbatim>\<open>undefined\<close>.
\<close>

definition isBlankImage :: "imageGrouper \<Rightarrow> htmlImage \<Rightarrow> string option \<Rightarrow> real option \<Rightarrow> bool" where
  "isBlankImage self img blankColor threshold =
     (let blankColor' = (case blankColor of None \<Rightarrow> ''#FFFFFF'' | Some c \<Rightarrow> c);
          threshold' = (case threshold of None \<Rightarrow> 10 | Some t \<Rightarrow> t)
      in avgDiff self img blankColor' \<le> threshold')"

subsection \<open>saveGroups\<close>

text \<open>A non-negative integer in a template literal: its decimal digits.\<close>

fun showNat :: "nat \<Rightarrow> string" where
  "showNat n =
     (if n < 10 then [char_of (48 + n)]
      else showNat (n div 10) @ [char_of (48 + n mod 10)])"

declare showNat.simps [simp del]

definition saveImage :: "imageGrouper \<Rightarrow> htmlImage \<Rightarrow> string \<Rightarrow> savedImage" where
  "saveImage self img name = \<lparr>saved_image = img, newName = name\<rparr>"

text \<open>
  \<^verbatim>\<open>createFolder\<close> and \<^verbatim>\<open>moveImagesToFolder\<close> have empty bodies, so the branch on
  \<^verbatim>\<open>this.config.groupFolder\<close> changes nothing.
\<close>

definition saveGroups :: "imageGrouper \<Rightarrow> htmlImage list list \<Rightarrow> savedImage list list" where
  "saveGroups self groups =
     map (\<lambda>(groupIndex, group).
            let groupName = namingScheme (config self) @ showNat (groupIndex + 1)
            in map (\<lambda>(imageIndex, img).
                      saveImage self img (groupName @ ''-image'' @ showNat (imageIndex + 1)))
                   (enumerate 0 group))
         (enumerate 0 groups)"

subsection \<open>groupImages\<close>

text \<open>
  The operator \<^verbatim>\<open>||\<close> on an optional string, number or boolean: the left operand when it
  is truthy, else the right one. \<^verbatim>\<open>undefined\<close>, the empty string, \<open>0\<close> and \<^verbatim>\<open>false\<close> are
  falsy.
\<close>

definition orString :: "string option \<Rightarrow> string \<Rightarrow> string" where
  "orString v d = (case v of None \<Rightarrow> d | Some s \<Rightarrow> if s = [] then d else s)"

definition orNumber :: "real option \<Rightarrow> real \<Rightarrow> real" where
  "orNumber v d = (case v of None \<Rightarrow> d | Some n \<Rightarrow> if n = 0 then d else n)"

definition orBool :: "bool option \<Rightarrow> bool \<Rightarrow> bool" where
  "orBool v d = (case v of None \<Rightarrow> d | Some t \<Rightarrow> if t then t else d)"

text \<open>
  The \<^verbatim>\<open>for\<close> loop of \<^verbatim>\<open>groupImages\<close> over the remaining images, with the variables
  \<^verbatim>\<open>groups\<close> and \<^verbatim>\<open>currentGroup\<close> as they stand; it returns both.
\<close>

fun groupLoop ::
  "imageGrouper \<Rightarrow> string \<Rightarrow> real \<Rightarrow> htmlImage list \<Rightarrow> htmlImage list list \<Rightarrow> htmlImage list
     \<Rightarrow> htmlImage list list \<times> htmlImage list" where
  "groupLoop self blankColor threshold [] groups currentGroup = (groups, currentGroup)"
| "groupLoop self blankColor threshold (img # rest) groups currentGroup =
     (if isBlankImage self img (Some blankColor) (Some threshold) then
        (if length currentGroup > 0
         then groupLoop self blankColor threshold rest (groups @ [currentGroup]) []
         else groupLoop self blankColor threshold rest groups currentGroup)
      else groupLoop self blankColor threshold rest groups (currentGroup @ [img]))"

definition groupImages :: "imageGrouper \<Rightarrow> htmlImage list \<Rightarrow> options \<Rightarrow> grouped" where
  "groupImages self images opts =
     (let blankColor = orString (opt_blankColor opts) (delimiterColor (config self));
          threshold = orNumber (opt_threshold opts) (colorThreshold (config self));
          save = orBool (opt_saveGroups opts) False
      in case groupLoop self blankColor threshold images [] [] of
           (groups, currentGroup) \<Rightarrow>
             (let groups' = (if length currentGroup > 0 then groups @ [currentGroup] else groups)
              in if save then SavedGroups (saveGroups self groups') else Groups groups'))"

text \<open>
  The image elements of every returned group, in order: the groups themselves, or the
  field \<^verbatim>\<open>image\<close> of every saved entry.
\<close>

definition groupsOf :: "grouped \<Rightarrow> htmlImage list list" where
  "groupsOf res = (case res of Groups gs \<Rightarrow> gs | SavedGroups ss \<Rightarrow> map (map saved_image) ss)"

subsection \<open>The spec's formulas\<close>

text \<open>
  Following the spec's words, for comparison with the code: the mean absolute channel
  difference of one sampled pixel against the blank colour, \<^verbatim>\<open>(|dr| + |dg| + |db|) / 3\<close>,
  and that quantity averaged over the three sample points.
\<close>

definition meanAbsChannelDiff :: "rgb \<Rightarrow> pixelData \<Rightarrow> real" where
  "meanAbsChannelDiff target px =
     (case px of
        (p0, p1, p2, p3) \<Rightarrow>
          (\<bar>of_int (uint p0) - of_int (r target)\<bar> + \<bar>of_int (uint p1) - of_int (g target)\<bar>
             + \<bar>of_int (uint p2) - of_int (b target)\<bar>) / 3)"

text \<open>
  The quantity the code takes of one sampled pixel instead: the sum of the three absolute
  channel differences, not divided by 3.
\<close>

definition sumAbsChannelDiff :: "rgb \<Rightarrow> pixelData \<Rightarrow> int" where
  "sumAbsChannelDiff target px =
     (case px of
        (p0, p1, p2, p3) \<Rightarrow>
          \<bar>uint p0 - r target\<bar> + \<bar>uint p1 - g target\<bar> + \<bar>uint p2 - b target\<bar>)"

definition specAverageDiff :: "imageGrouper \<Rightarrow> htmlImage \<Rightarrow> string \<Rightarrow> real" where
  "specAverageDiff self img blankColor =
     (\<Sum>p \<leftarrow> samplePoints img.
         meanAbsChannelDiff (hexToRgb self blankColor) (getImageData img (fst p) (snd p))) / 3"

text \<open>
  Following the spec's words: the Euclidean distance of two colours, the square root of
  the sum over the three channels of the squared channel differences.
\<close>

definition distance :: "rgb \<Rightarrow> rgb \<Rightarrow> real" where
  "distance c1 c2 = sqrt (\<Sum>channel \<leftarrow> [r, g, b]. (of_int (channel c1) - of_int (channel c2))\<^sup>2)"

text \<open>
  Following the spec's words: a hexadecimal digit of either case, the value of a digit,
  a string of exactly 6 hexadecimal digits, and the colour whose channels are its three
  digit pairs.
\<close>

definition specHexDigit :: "char \<Rightarrow> bool" where
  "specHexDigit c = (c \<in> set ''0123456789abcdefABCDEF'')"

definition specHexValue :: "char \<Rightarrow> int" where
  "specHexValue c =
     (case map_of
        [(CHR ''0'', 0), (CHR ''1'', 1), (CHR ''2'', 2), (CHR ''3'', 3), (CHR ''4'', 4),
         (CHR ''5'', 5), (CHR ''6'', 6), (CHR ''7'', 7), (CHR ''8'', 8), (CHR ''9'', 9),
         (CHR ''a'', 10), (CHR ''b'', 11), (CHR ''c'', 12), (CHR ''d'', 13), (CHR ''e'', 14),
         (CHR ''f'', 15),
         (CHR ''A'', 10), (CHR ''B'', 11), (CHR ''C'', 12), (CHR ''D'', 13), (CHR ''E'', 14),
         (CHR ''F'', 15)] c of
        Some v \<Rightarrow> v
      | None \<Rightarrow> 0)"

definition sixHexDigits :: "string \<Rightarrow> bool" where
  "sixHexDigits ds = (length ds = 6 \<and> list_all specHexDigit ds)"

definition channels :: "string \<Rightarrow> rgb" where
  "channels ds =
     \<lparr>r = 16 * specHexValue (ds ! 0) + specHexValue (ds ! 1),
      g = 16 * specHexValue (ds ! 2) + specHexValue (ds ! 3),
      b = 16 * specHexValue (ds ! 4) + specHexValue (ds ! 5)\<rparr>"

subsection \<open>Fixtures\<close>

text \<open>
  An image of one colour, an image of one colour but for one pixel, the constructor's argument \<^verbatim>\<open>{}\<close> and the options \<^verbatim>\<open>{}\<close>, for
  the concrete instances below.
\<close>

definition uniformImage :: "int \<Rightarrow> int \<Rightarrow> pixelData \<Rightarrow> htmlImage" where
  "uniformImage w h p = \<lparr>width = w, height = h, getImageData = (\<lambda>x y. p)\<rparr>"

definition spotImage :: "int \<Rightarrow> int \<Rightarrow> pixelData \<Rightarrow> int \<Rightarrow> int \<Rightarrow> pixelData \<Rightarrow> htmlImage" where
  "spotImage w h p x0 y0 q =
     \<lparr>width = w, height = h, getImageData = (\<lambda>x y. if x = x0 \<and> y = y0 then q else p)\<rparr>"

definition noConfig :: configArg where
  "noConfig = \<lparr>arg_delimiterColor = None, arg_colorThreshold = None,
               arg_groupFolder = None, arg_namingScheme = None\<rparr>"

definition noOptions :: options where
  "noOptions = \<lparr>opt_blankColor = None, opt_threshold = None, opt_saveGroups = None\<rparr>"

section \<open>Properties\<close>

subsection \<open>Auxiliary facts\<close>

lemma samplePoints_div:
  "samplePoints img =
     [(width img div 2, height img div 2),
      (width img div 4, height img div 4),
      (3 * width img div 4, 3 * height img div 4)]"
proof -
  have h: "\<lfloor>(of_int k :: real) / 2\<rfloor> = k div 2" "\<lfloor>(of_int k :: real) / 4\<rfloor> = k div 4"
    "\<lfloor>(3 * of_int k :: real) / 4\<rfloor> = 3 * k div 4" for k :: int
    using floor_divide_of_int_eq [of k 2, where ?'a = real]
      floor_divide_of_int_eq [of k 4, where ?'a = real]
      floor_divide_of_int_eq [of "3 * k" 4, where ?'a = real]
    by simp_all
  show ?thesis by (simp add: samplePoints_def h)
qed

lemma groupLoop_concat:
  "groupLoop self c t images groups cur = (gs, cg) \<Longrightarrow>
   concat gs @ cg =
     concat groups @ cur @ filter (\<lambda>img. \<not> isBlankImage self img (Some c) (Some t)) images"
  by (induction images arbitrary: groups cur) (auto split: if_splits)

lemma groupLoop_nonempty:
  "groupLoop self c t images groups cur = (gs, cg) \<Longrightarrow> [] \<notin> set groups \<Longrightarrow> [] \<notin> set gs"
  by (induction images arbitrary: groups cur) (auto split: if_splits)

lemma groupLoop_no_blank:
  "\<forall>img \<in> set images. \<not> isBlankImage self img (Some c) (Some t) \<Longrightarrow>
   groupLoop self c t images groups cur = (groups, cur @ images)"
  by (induction images arbitrary: cur) auto

lemma groupLoop_all_blank:
  "\<forall>img \<in> set images. isBlankImage self img (Some c) (Some t) \<Longrightarrow>
   groupLoop self c t images groups [] = (groups, [])"
  by (induction images) auto

lemma saved_image_saveGroups: "map (map saved_image) (saveGroups self groups) = groups"
proof -
  have inner: "map (saved_image \<circ> (\<lambda>(i, img). saveImage self img (f i))) (enumerate n group) = group"
    for f n group
  proof -
    have "saved_image \<circ> (\<lambda>(i, img). saveImage self img (f i)) = snd"
      by (auto simp: fun_eq_iff saveImage_def)
    then show ?thesis by (simp add: map_snd_enumerate)
  qed
  have "map (map saved_image) (map (\<lambda>(gi, group). map (\<lambda>(i, img). saveImage self img (f gi i)) (enumerate 0 group)) (enumerate n groups)) = groups" for f n
    by (induction groups arbitrary: n) (simp_all add: inner)
  then show ?thesis
    by (simp add: saveGroups_def Let_def)
qed

lemma groupsOf_groupImages:
  "groupsOf (groupImages self images opts) =
     (case groupLoop self (orString (opt_blankColor opts) (delimiterColor (config self)))
             (orNumber (opt_threshold opts) (colorThreshold (config self))) images [] [] of
        (groups, cur) \<Rightarrow> if length cur > 0 then groups @ [cur] else groups)"
  by (simp add: groupImages_def groupsOf_def Let_def saved_image_saveGroups split: prod.splits)

lemmas hex_defs = hexToRgb_def execHex_def hexPair_def hexClass_def parseInt16_def hexDigitValue_def

lemma uniformImage_sel [simp]:
  "width (uniformImage w h p) = w" "height (uniformImage w h p) = h"
  "getImageData (uniformImage w h p) x y = p"
  by (simp_all add: uniformImage_def)


lemma hexToRgb_white: "hexToRgb self ''#FFFFFF'' = \<lparr>r = 255, g = 255, b = 255\<rparr>"
  by (simp add: hex_defs)

lemma hexToRgb_black: "hexToRgb self ''#000000'' = \<lparr>r = 0, g = 0, b = 0\<rparr>"
  by (simp add: hex_defs)

lemma roundHalfEven_of_int [simp]: "roundHalfEven (of_int k) = k"
  by (simp add: roundHalfEven_def)

lemma roundHalfEven_down:
  assumes "of_int f \<le> y" and "y < of_int f + 1 / 2"
  shows "roundHalfEven y = f"
proof -
  have "\<lfloor>y\<rfloor> = f" using assms by (intro floor_unique) auto
  then show ?thesis using assms by (simp add: roundHalfEven_def)
qed

lemma scaled_of_int:
  fixes n :: int and K s :: nat
  assumes "0 \<le> n" and "s \<le> K"
  shows "\<bar>of_int n :: real\<bar> * 2 ^ K / 2 ^ s = of_int (n * 2 ^ (K - s))"
    and "of_int (n * 2 ^ (K - s)) * 2 ^ s / 2 ^ K = (of_int n :: real)"
    and "\<lfloor>\<bar>of_int n :: real\<bar> * 2 ^ K\<rfloor> = n * 2 ^ K"
proof -
  have "\<bar>of_int n :: real\<bar> * 2 ^ K = of_int (n * 2 ^ K)"
    using assms(1) by simp
  then show "\<lfloor>\<bar>of_int n :: real\<bar> * 2 ^ K\<rfloor> = n * 2 ^ K"
    by (simp only: floor_of_int)
  from assms(2) obtain d where K: "K = s + d"
    using le_Suc_ex by blast
  show "\<bar>of_int n :: real\<bar> * 2 ^ K / 2 ^ s = of_int (n * 2 ^ (K - s))"
    using assms(1) by (simp add: K power_add)
  show "of_int (n * 2 ^ (K - s)) * 2 ^ s / 2 ^ K = (of_int n :: real)"
    by (simp add: K power_add)
qed

lemma floorlog_scaled:
  fixes n :: int and K :: nat
  assumes "0 \<le> n" and "n < 2 ^ 53"
  shows "floorlog 2 (nat (n * 2 ^ K)) - 53 \<le> K"
proof -
  have "n * 2 ^ K < 2 ^ 53 * 2 ^ K"
    using assms(2) by (simp add: mult_strict_right_mono)
  then have "n * 2 ^ K < 2 ^ (53 + K)"
    by (simp only: power_add)
  then have "nat (n * 2 ^ K) < 2 ^ (53 + K)"
    using assms(1) by (simp add: nat_less_iff)
  then have "floorlog 2 (nat (n * 2 ^ K)) \<le> 53 + K"
    by (intro floorlog_leI) simp_all
  then show ?thesis by linarith
qed

lemma toDouble_of_int:
  assumes "0 \<le> n" and "n < 2 ^ 53"
  shows "toDouble (of_int n) = of_int n"
proof -
  define s where "s = floorlog 2 (nat (n * 2 ^ 1074)) - 53"
  have s: "s \<le> 1074"
    unfolding s_def using assms by (rule floorlog_scaled)
  have "toDouble (of_int n) =
      sgn (of_int n) * of_int (n * 2 ^ (1074 - s)) * 2 ^ s / 2 ^ 1074"
    unfolding toDouble_def Let_def scaled_of_int(3) [OF assms(1) le_refl] s_def [symmetric]
      scaled_of_int(1) [OF assms(1) s] roundHalfEven_of_int ..
  also have "\<dots> = sgn (of_int n :: real) * (of_int (n * 2 ^ (1074 - s)) * 2 ^ s / 2 ^ 1074)"
    by (simp only: mult.assoc times_divide_eq_right)
  also have "\<dots> = sgn (of_int n :: real) * of_int n"
    by (simp only: scaled_of_int(2) [OF assms(1) s])
  also have "\<dots> = of_int n"
    using assms(1) by (cases "n = 0") simp_all
  finally show ?thesis .
qed

lemma toDouble_numeral [simp]:
  "(numeral k :: int) < 2 ^ 53 \<Longrightarrow> toDouble (numeral k) = numeral k"
  using toDouble_of_int [of "numeral k"] by simp

lemma toDouble_0 [simp]: "toDouble 0 = 0"
  using toDouble_of_int [of 0] by simp

lemma toDouble_1 [simp]: "toDouble 1 = 1"
  using toDouble_of_int [of 1] by simp

lemma third_scaled:
  fixes j :: nat
  defines "K \<equiv> j + 55"
  shows "sgn (1 / 3 :: real)
           * of_int (roundHalfEven (\<bar>1 / 3 :: real\<bar> * 2 ^ K
                       / 2 ^ (floorlog 2 (nat \<lfloor>\<bar>1 / 3 :: real\<bar> * 2 ^ K\<rfloor>) - 53)))
           * 2 ^ (floorlog 2 (nat \<lfloor>\<bar>1 / 3 :: real\<bar> * 2 ^ K\<rfloor>) - 53) / 2 ^ K
         = 6004799503160661 / 18014398509481984"
proof -
  define m :: nat where "m = 2 ^ (j + 53)"
  have m: "0 < m" by (simp add: m_def)
  have K: "(2::nat) ^ K = 4 * m" "(2::nat) ^ (K - 1) = 2 * m" "(2::nat) ^ (K - 1 - 1) = m"
    by (simp_all add: K_def m_def power_add)
  have fl: "nat \<lfloor>\<bar>1 / 3 :: real\<bar> * 2 ^ K\<rfloor> = 4 * m div 3"
  proof -
    have "(2::real) ^ K = of_nat (2 ^ K)" by simp
    then have "(2::real) ^ K = of_int (int (4 * m))" by (simp only: K(1) of_int_of_nat_eq)
    then have "\<bar>1 / 3 :: real\<bar> * 2 ^ K = of_int (int (4 * m)) / of_int 3"
      by simp
    then have "\<lfloor>\<bar>1 / 3 :: real\<bar> * 2 ^ K\<rfloor> = int (4 * m) div 3"
      by (simp only: floor_divide_of_int_eq)
    then show ?thesis by (simp add: nat_div_distrib)
  qed
  have lg: "floorlog 2 (4 * m div 3) = K - 1"
  proof (rule antisym)
    have "4 * m div 3 < 2 ^ (K - 1)" unfolding K(2) using m by linarith
    then show "floorlog 2 (4 * m div 3) \<le> K - 1"
      by (rule floorlog_leI) simp_all
    have "2 ^ (K - 1 - 1) \<le> 4 * m div 3" unfolding K(3) by linarith
    then show "K - 1 \<le> floorlog 2 (4 * m div 3)"
      by (rule floorlog_geI) simp
  qed
  have sh: "K - 1 - 53 = j + 1" by (simp add: K_def)
  have q: "\<bar>1 / 3 :: real\<bar> * 2 ^ K / 2 ^ (j + 1) = 18014398509481984 / 3"
    by (simp add: K_def power_add)
  have r: "roundHalfEven (18014398509481984 / 3) = 6004799503160661"
    by (rule roundHalfEven_down) simp_all
  show ?thesis
    unfolding fl lg sh q r by (simp add: K_def power_add)
qed

lemma one_third: "toDouble (1 / 3) = 6004799503160661 / 18014398509481984"
proof -
  have e: "(1074::nat) = 1019 + 55" by simp
  show ?thesis
    unfolding toDouble_def Let_def e by (rule third_scaled)
qed

lemma totalDiff_points:
  "totalDiff self img c =
     pointDiff img (hexToRgb self c) (width img div 2, height img div 2)
     + pointDiff img (hexToRgb self c) (width img div 4, height img div 4)
     + pointDiff img (hexToRgb self c) (3 * width img div 4, 3 * height img div 4)"
  by (simp add: totalDiff_def samplePoints_div Let_def)

lemma pointDiff_pixel:
  "pointDiff img target (x, y) = sumAbsChannelDiff target (getImageData img x y)"
  by (simp add: pointDiff_def sumAbsChannelDiff_def)

lemma totalDiff_pixels:
  "totalDiff self img c =
     sumAbsChannelDiff (hexToRgb self c) (getImageData img (width img div 2) (height img div 2))
     + sumAbsChannelDiff (hexToRgb self c) (getImageData img (width img div 4) (height img div 4))
     + sumAbsChannelDiff (hexToRgb self c)
         (getImageData img (3 * width img div 4) (3 * height img div 4))"
  by (simp add: totalDiff_points pointDiff_pixel)

lemma avgDiff_total: "avgDiff self img c = toDouble (of_int (totalDiff self img c) / 3)"
  by (simp add: avgDiff_def samplePoints_div)

lemma spotImage_sel [simp]:
  "width (spotImage w h p x0 y0 q) = w" "height (spotImage w h p x0 y0 q) = h"
  "getImageData (spotImage w h p x0 y0 q) x y = (if x = x0 \<and> y = y0 then q else p)"
  by (simp_all add: spotImage_def)

lemma avgDiff_uniform:
  "avgDiff self (uniformImage w h (p0, p1, p2, p3)) c =
     toDouble (of_int (\<bar>uint p0 - r (hexToRgb self c)\<bar> + \<bar>uint p1 - g (hexToRgb self c)\<bar>
             + \<bar>uint p2 - b (hexToRgb self c)\<bar>))"
proof -
  define k where "k = \<bar>uint p0 - r (hexToRgb self c)\<bar> + \<bar>uint p1 - g (hexToRgb self c)\<bar>
             + \<bar>uint p2 - b (hexToRgb self c)\<bar>"
  have "totalDiff self (uniformImage w h (p0, p1, p2, p3)) c = k + k + k"
    by (simp add: totalDiff_pixels sumAbsChannelDiff_def k_def)
  moreover have "(of_int (k + k + k) :: real) / 3 = of_int k"
    by simp
  ultimately show ?thesis
    by (simp only: avgDiff_total k_def [symmetric])
qed

lemma hexClass_spec: "hexClass c = specHexDigit c"
  by (auto simp: hexClass_def specHexDigit_def)

lemma hexDigitValue_spec: "specHexDigit c \<Longrightarrow> hexDigitValue c = specHexValue c"
proof -
  assume "specHexDigit c"
  then have "c = CHR ''0'' \<or> c = CHR ''1'' \<or> c = CHR ''2'' \<or> c = CHR ''3'' \<or> c = CHR ''4''
      \<or> c = CHR ''5'' \<or> c = CHR ''6'' \<or> c = CHR ''7'' \<or> c = CHR ''8'' \<or> c = CHR ''9''
      \<or> c = CHR ''a'' \<or> c = CHR ''b'' \<or> c = CHR ''c'' \<or> c = CHR ''d'' \<or> c = CHR ''e''
      \<or> c = CHR ''f'' \<or> c = CHR ''A'' \<or> c = CHR ''B'' \<or> c = CHR ''C'' \<or> c = CHR ''D''
      \<or> c = CHR ''E'' \<or> c = CHR ''F''"
    by (simp add: specHexDigit_def)
  then show ?thesis
    by (elim disjE) (simp_all add: hexDigitValue_def specHexValue_def)
qed

lemma hexPair_Some:
  "hexPair s = Some (gp, rest) \<longleftrightarrow>
     (\<exists>c d. s = c # d # rest \<and> gp = [c, d] \<and> specHexDigit c \<and> specHexDigit d)"
  by (auto simp: hexPair_def hexClass_spec split: list.splits)

lemma hexPair_two:
  "specHexDigit c \<Longrightarrow> specHexDigit d \<Longrightarrow> hexPair (c # d # rest) = Some ([c, d], rest)"
  by (simp add: hexPair_def hexClass_spec)

lemma parseInt16_two: "parseInt16 [c, d] = 16 * hexDigitValue c + hexDigitValue d"
  by (simp add: parseInt16_def)

lemma hash_not_hex: "\<not> specHexDigit CHR ''#''"
  by (simp add: specHexDigit_def)

lemma length_six:
  "length ds = 6 \<Longrightarrow> \<exists>d0 d1 d2 d3 d4 d5. ds = [d0, d1, d2, d3, d4, d5]"
  by (auto simp: length_Suc_conv eval_nat_numeral)

lemma execHex_digits:
  assumes "sixHexDigits ds"
  shows "execHex ds = Some (take 2 ds, take 2 (drop 2 ds), drop 4 ds)"
    and "execHex (CHR ''#'' # ds) = Some (take 2 ds, take 2 (drop 2 ds), drop 4 ds)"
proof -
  from assms have "length ds = 6" by (simp add: sixHexDigits_def)
  from length_six [OF this] obtain d0 d1 d2 d3 d4 d5 where ds: "ds = [d0, d1, d2, d3, d4, d5]"
    by blast
  with assms have h: "specHexDigit d0" "specHexDigit d1" "specHexDigit d2" "specHexDigit d3"
    "specHexDigit d4" "specHexDigit d5"
    by (simp_all add: sixHexDigits_def)
  from h(1) have "d0 \<noteq> CHR ''#''" using hash_not_hex by auto
  then show "execHex ds = Some (take 2 ds, take 2 (drop 2 ds), drop 4 ds)"
    by (simp add: execHex_def ds hexPair_two h)
  show "execHex (CHR ''#'' # ds) = Some (take 2 ds, take 2 (drop 2 ds), drop 4 ds)"
    by (simp add: execHex_def ds hexPair_two h)
qed

lemma execHex_shape:
  assumes "execHex hex = Some gs"
  shows "sixHexDigits hex \<or> (\<exists>ds. hex = CHR ''#'' # ds \<and> sixHexDigits ds)"
proof -
  define s where "s = (case hex of [] \<Rightarrow> hex | c # t \<Rightarrow> if c = CHR ''#'' then t else hex)"
  from assms obtain g1 s1 g2 s2 g3 where
    p1: "hexPair s = Some (g1, s1)" and p2: "hexPair s1 = Some (g2, s2)"
    and p3: "hexPair s2 = Some (g3, [])"
    by (auto simp: execHex_def s_def [symmetric] Let_def split: option.splits if_splits)
  then have "sixHexDigits s"
    by (auto simp: hexPair_Some sixHexDigits_def)
  moreover have "s = hex \<or> hex = CHR ''#'' # s"
    by (auto simp: s_def split: list.splits)
  ultimately show ?thesis by auto
qed

lemma hexToRgb_digits:
  assumes "sixHexDigits ds"
  shows "hexToRgb self ds = channels ds" and "hexToRgb self (CHR ''#'' # ds) = channels ds"
proof -
  from assms have "length ds = 6" by (simp add: sixHexDigits_def)
  from length_six [OF this] obtain d0 d1 d2 d3 d4 d5 where ds: "ds = [d0, d1, d2, d3, d4, d5]"
    by blast
  with assms have h: "specHexDigit d0" "specHexDigit d1" "specHexDigit d2" "specHexDigit d3"
    "specHexDigit d4" "specHexDigit d5"
    by (simp_all add: sixHexDigits_def)
  have c: "channels ds = \<lparr>r = parseInt16 (take 2 ds), g = parseInt16 (take 2 (drop 2 ds)),
      b = parseInt16 (drop 4 ds)\<rparr>"
    by (simp add: ds channels_def parseInt16_two hexDigitValue_spec h)
  show "hexToRgb self ds = channels ds"
    by (simp only: hexToRgb_def execHex_digits(1) [OF assms] c option.case prod.case)
  show "hexToRgb self (CHR ''#'' # ds) = channels ds"
    by (simp only: hexToRgb_def execHex_digits(2) [OF assms] c option.case prod.case)
qed

lemma hexToRgb_fallback:
  assumes "\<not> sixHexDigits hex" and "\<not> (\<exists>ds. hex = CHR ''#'' # ds \<and> sixHexDigits ds)"
  shows "hexToRgb self hex = \<lparr>r = 255, g = 255, b = 255\<rparr>"
proof (cases "execHex hex")
  case None
  then show ?thesis by (simp add: hexToRgb_def)
next
  case (Some gs)
  from execHex_shape [OF Some] assms show ?thesis by blast
qed

lemma isBlankImage_uniform:
  "isBlankImage self (uniformImage w h (p0, p1, p2, p3)) (Some c) (Some t) =
     (toDouble (of_int (\<bar>uint p0 - r (hexToRgb self c)\<bar> + \<bar>uint p1 - g (hexToRgb self c)\<bar>
              + \<bar>uint p2 - b (hexToRgb self c)\<bar>)) \<le> t)"
  by (simp add: isBlankImage_def avgDiff_uniform)

lemma flushed_concat:
  "concat (case groupLoop self c t images [] [] of
             (groups, cur) \<Rightarrow> if length cur > 0 then groups @ [cur] else groups) =
     filter (\<lambda>img. \<not> isBlankImage self img (Some c) (Some t)) images"
proof -
  obtain gs cg where loop: "groupLoop self c t images [] [] = (gs, cg)"
    by (cases "groupLoop self c t images [] []")
  from groupLoop_concat [OF loop] show ?thesis
    by (auto simp: loop)
qed

subsection \<open>The grouping pass\<close>

text \<open>
  C1. For every grouper, every list of images and every \<^verbatim>\<open>options\<close>, the groups that
  \<^verbatim>\<open>groupImages\<close> returns, concatenated in order, are the input images that
  \<^verbatim>\<open>isBlankImage\<close> classifies as non-blank, in input order. The classification is the one
  the pass itself makes: with the blank colour and the threshold that \<^verbatim>\<open>groupImages\<close>
  hands to \<^verbatim>\<open>isBlankImage\<close>. With \<^verbatim>\<open>saveGroups\<close> set, every image comes back wrapped with
  its new name, and the images are the wrapped ones.
\<close>

theorem groupImages_concat:
  "concat (groupsOf (groupImages self images opts)) =
     filter (\<lambda>img. \<not> isBlankImage self img
                      (Some (orString (opt_blankColor opts) (delimiterColor (config self))))
                      (Some (orNumber (opt_threshold opts) (colorThreshold (config self)))))
            images"
proof -
  obtain gs cg where loop:
    "groupLoop self (orString (opt_blankColor opts) (delimiterColor (config self)))
       (orNumber (opt_threshold opts) (colorThreshold (config self))) images [] [] = (gs, cg)"
    by (cases "groupLoop self (orString (opt_blankColor opts) (delimiterColor (config self)))
       (orNumber (opt_threshold opts) (colorThreshold (config self))) images [] []")
  from groupLoop_concat [OF loop] show ?thesis
    by (auto simp: groupsOf_groupImages loop)
qed

text \<open>
  C4. No group returned by \<^verbatim>\<open>groupImages\<close> is empty, whatever the input and the options:
  neither among the image groups nor among the saved groups.
\<close>

theorem groupImages_no_empty_group:
  "[] \<notin> set (groupsOf (groupImages self images opts)) \<and>
   (case groupImages self images opts of
      Groups gs \<Rightarrow> [] \<notin> set gs
    | SavedGroups ss \<Rightarrow> [] \<notin> set ss)"
proof -
  obtain gs cg where loop:
    "groupLoop self (orString (opt_blankColor opts) (delimiterColor (config self)))
       (orNumber (opt_threshold opts) (colorThreshold (config self))) images [] [] = (gs, cg)"
    by (cases "groupLoop self (orString (opt_blankColor opts) (delimiterColor (config self)))
       (orNumber (opt_threshold opts) (colorThreshold (config self))) images [] []")
  from groupLoop_nonempty [OF loop] have "[] \<notin> set gs" by simp
  then have a: "[] \<notin> set (groupsOf (groupImages self images opts))"
    by (simp add: groupsOf_groupImages loop)
  then have "case groupImages self images opts of
      Groups gs \<Rightarrow> [] \<notin> set gs
    | SavedGroups ss \<Rightarrow> [] \<notin> set ss"
    by (auto simp: groupsOf_def split: grouped.splits)
  with a show ?thesis by simp
qed

text \<open>
  C6. \<^verbatim>\<open>groupImages\<close> on the empty list returns an empty list of groups, and the model has
  no failing branch; on a non-empty input of which no image is classified blank it returns
  exactly one group, the input itself; on an input of which every image is classified
  blank it returns an empty list of groups. The first clause settles the empty input,
  so the second is read for an input that has an image.
\<close>

theorem groupImages_edge_cases:
  "groupsOf (groupImages self [] opts) = []
   \<and> groupImages self [] opts = (if orBool (opt_saveGroups opts) False then SavedGroups [] else Groups [])
   \<and> (images \<noteq> [] \<and>
        (\<forall>img \<in> set images.
            \<not> isBlankImage self img
                 (Some (orString (opt_blankColor opts) (delimiterColor (config self))))
                 (Some (orNumber (opt_threshold opts) (colorThreshold (config self)))))
       \<longrightarrow> groupsOf (groupImages self images opts) = [images])
   \<and> ((\<forall>img \<in> set images.
            isBlankImage self img
              (Some (orString (opt_blankColor opts) (delimiterColor (config self))))
              (Some (orNumber (opt_threshold opts) (colorThreshold (config self)))))
       \<longrightarrow> groupsOf (groupImages self images opts) = [])"
proof -
  have a: "groupsOf (groupImages self [] opts) = []"
    by (simp add: groupsOf_groupImages)
  have b: "groupImages self [] opts = (if orBool (opt_saveGroups opts) False then SavedGroups [] else Groups [])"
    by (simp add: groupImages_def saveGroups_def Let_def)
  have c: "groupsOf (groupImages self images opts) = [images]"
    if "images \<noteq> []" and "\<forall>img \<in> set images.
            \<not> isBlankImage self img
                 (Some (orString (opt_blankColor opts) (delimiterColor (config self))))
                 (Some (orNumber (opt_threshold opts) (colorThreshold (config self))))"
    using that(1) groupLoop_no_blank [OF that(2), of "[]" "[]"]
    by (simp add: groupsOf_groupImages)
  have d: "groupsOf (groupImages self images opts) = []"
    if "\<forall>img \<in> set images.
            isBlankImage self img
              (Some (orString (opt_blankColor opts) (delimiterColor (config self))))
              (Some (orNumber (opt_threshold opts) (colorThreshold (config self))))"
    using groupLoop_all_blank [OF that, of "[]"]
    by (simp add: groupsOf_groupImages)
  from a b c d show ?thesis by blast
qed

theorem groupImages_edge_cases_witness:
  "[uniformImage 4 4 (0, 0, 0, 255), uniformImage 2 2 (9, 9, 9, 255)] \<noteq> []
   \<and> \<not> isBlankImage (newImageGrouper noConfig) (uniformImage 4 4 (0, 0, 0, 255))
         (Some ''#FFFFFF'') (Some 10)
   \<and> \<not> isBlankImage (newImageGrouper noConfig) (uniformImage 2 2 (9, 9, 9, 255))
         (Some ''#FFFFFF'') (Some 10)
   \<and> groupsOf (groupImages (newImageGrouper noConfig)
        [uniformImage 4 4 (0, 0, 0, 255), uniformImage 2 2 (9, 9, 9, 255)] noOptions)
      = [[uniformImage 4 4 (0, 0, 0, 255), uniformImage 2 2 (9, 9, 9, 255)]]
   \<and> isBlankImage (newImageGrouper noConfig) (uniformImage 4 4 (255, 255, 255, 255))
         (Some ''#FFFFFF'') (Some 10)
   \<and> isBlankImage (newImageGrouper noConfig) (uniformImage 2 2 (254, 250, 255, 255))
         (Some ''#FFFFFF'') (Some 10)
   \<and> groupsOf (groupImages (newImageGrouper noConfig)
        [uniformImage 4 4 (255, 255, 255, 255), uniformImage 2 2 (254, 250, 255, 255)] noOptions)
      = []"
  using groupImages_edge_cases [of "newImageGrouper noConfig" noOptions
      "[uniformImage 4 4 (0, 0, 0, 255), uniformImage 2 2 (9, 9, 9, 255)]"]
    groupImages_edge_cases [of "newImageGrouper noConfig" noOptions
      "[uniformImage 4 4 (255, 255, 255, 255), uniformImage 2 2 (254, 250, 255, 255)]"]
  by (simp add: isBlankImage_uniform hexToRgb_white newImageGrouper_def noConfig_def noOptions_def
        orString_def orNumber_def)

subsection \<open>Per-call overrides\<close>

text \<open>
  C3, as the spec states it, fails twice. \<^verbatim>\<open>groupImages\<close> resolves its options with
  \<^verbatim>\<open>||\<close>, so the supplied threshold 0 gives way to the configured threshold 10, and an
  image at distance 1 from white is classified blank although it is not blank under the
  threshold 0. And the defaults of \<^verbatim>\<open>isBlankImage\<close> are the literals \<^verbatim>\<open>'#FFFFFF'\<close> and
  \<open>10\<close>: on a grouper configured for black delimiters, a black image is not blank when
  the arguments are omitted.
\<close>

theorem override_counterexample:
  "\<not> isBlankImage (newImageGrouper noConfig) (uniformImage 4 4 (255, 255, 254, 255))
        (Some ''#FFFFFF'') (Some 0)
   \<and> groupImages (newImageGrouper noConfig) [uniformImage 4 4 (255, 255, 254, 255)]
        \<lparr>opt_blankColor = Some ''#FFFFFF'', opt_threshold = Some 0, opt_saveGroups = None\<rparr>
      = Groups []
   \<and> isBlankImage
        (newImageGrouper \<lparr>arg_delimiterColor = Some ''#000000'', arg_colorThreshold = Some 20,
                           arg_groupFolder = None, arg_namingScheme = None\<rparr>)
        (uniformImage 4 4 (0, 0, 0, 255)) (Some ''#000000'') (Some 20)
   \<and> \<not> isBlankImage
        (newImageGrouper \<lparr>arg_delimiterColor = Some ''#000000'', arg_colorThreshold = Some 20,
                           arg_groupFolder = None, arg_namingScheme = None\<rparr>)
        (uniformImage 4 4 (0, 0, 0, 255)) None None"
proof -
  have a: "\<not> isBlankImage (newImageGrouper noConfig) (uniformImage 4 4 (255, 255, 254, 255))
        (Some ''#FFFFFF'') (Some 0)"
    by (simp add: isBlankImage_uniform hexToRgb_white)
  have b: "groupImages (newImageGrouper noConfig) [uniformImage 4 4 (255, 255, 254, 255)]
        \<lparr>opt_blankColor = Some ''#FFFFFF'', opt_threshold = Some 0, opt_saveGroups = None\<rparr>
      = Groups []"
    by (simp add: groupImages_def orString_def orNumber_def orBool_def newImageGrouper_def
          noConfig_def isBlankImage_uniform hexToRgb_white)
  have c: "isBlankImage self (uniformImage 4 4 (0, 0, 0, 255)) (Some ''#000000'') (Some 20)" for self
    by (simp add: isBlankImage_uniform hexToRgb_black)
  have d: "\<not> isBlankImage self (uniformImage 4 4 (0, 0, 0, 255)) None None" for self
    by (simp add: isBlankImage_def avgDiff_uniform hexToRgb_white)
  from a b c d show ?thesis by blast
qed

text \<open>
  C3, amended. Each option of \<^verbatim>\<open>groupImages\<close> is resolved on its own. A non-empty blank
  colour is the colour it classifies with, and the configured \<^verbatim>\<open>delimiterColor\<close> is when the
  option is omitted, whatever the threshold option is. A non-zero threshold is the
  threshold it classifies with, and the configured \<^verbatim>\<open>colorThreshold\<close> is when the option is
  omitted, whatever the colour option is. A direct call of \<^verbatim>\<open>isBlankImage\<close> uses every
  value it is given, the threshold 0 and any string included, and the fixed defaults
  \<^verbatim>\<open>'#FFFFFF'\<close> and \<open>10\<close>, not the configuration, for an omitted argument.
\<close>

theorem override_resolution:
  "(opt_blankColor opts \<noteq> Some [] \<longrightarrow>
      concat (groupsOf (groupImages self images opts)) =
        filter (\<lambda>img. \<not> isBlankImage self img
                         (Some (case opt_blankColor opts of
                                  Some c \<Rightarrow> c | None \<Rightarrow> delimiterColor (config self)))
                         (Some (orNumber (opt_threshold opts) (colorThreshold (config self)))))
               images)
   \<and> (opt_threshold opts \<noteq> Some 0 \<longrightarrow>
      concat (groupsOf (groupImages self images opts)) =
        filter (\<lambda>img. \<not> isBlankImage self img
                         (Some (orString (opt_blankColor opts) (delimiterColor (config self))))
                         (Some (case opt_threshold opts of
                                  Some t \<Rightarrow> t | None \<Rightarrow> colorThreshold (config self))))
               images)
   \<and> isBlankImage self img blankColor threshold =
       (avgDiff self img (case blankColor of Some c \<Rightarrow> c | None \<Rightarrow> ''#FFFFFF'')
          \<le> (case threshold of Some t \<Rightarrow> t | None \<Rightarrow> 10))"
proof -
  have a: "orString (opt_blankColor opts) (delimiterColor (config self)) =
      (case opt_blankColor opts of Some c \<Rightarrow> c | None \<Rightarrow> delimiterColor (config self))"
    if "opt_blankColor opts \<noteq> Some []"
    using that by (simp add: orString_def split: option.splits)
  have b: "orNumber (opt_threshold opts) (colorThreshold (config self)) =
      (case opt_threshold opts of Some t \<Rightarrow> t | None \<Rightarrow> colorThreshold (config self))"
    if "opt_threshold opts \<noteq> Some 0"
    using that by (simp add: orNumber_def split: option.splits)
  have c: "isBlankImage self img blankColor threshold =
       (avgDiff self img (case blankColor of Some c \<Rightarrow> c | None \<Rightarrow> ''#FFFFFF'')
          \<le> (case threshold of Some t \<Rightarrow> t | None \<Rightarrow> 10))"
    by (simp add: isBlankImage_def)
  have d: "concat (groupsOf (groupImages self images opts)) =
        filter (\<lambda>img. \<not> isBlankImage self img
                         (Some (orString (opt_blankColor opts) (delimiterColor (config self))))
                         (Some (orNumber (opt_threshold opts) (colorThreshold (config self)))))
               images"
    unfolding groupsOf_groupImages by (rule flushed_concat)
  from d a have e: "opt_blankColor opts \<noteq> Some [] \<longrightarrow>
      concat (groupsOf (groupImages self images opts)) =
        filter (\<lambda>img. \<not> isBlankImage self img
                         (Some (case opt_blankColor opts of
                                  Some c \<Rightarrow> c | None \<Rightarrow> delimiterColor (config self)))
                         (Some (orNumber (opt_threshold opts) (colorThreshold (config self)))))
               images"
    by simp
  from d b have f: "opt_threshold opts \<noteq> Some 0 \<longrightarrow>
      concat (groupsOf (groupImages self images opts)) =
        filter (\<lambda>img. \<not> isBlankImage self img
                         (Some (orString (opt_blankColor opts) (delimiterColor (config self))))
                         (Some (case opt_threshold opts of
                                  Some t \<Rightarrow> t | None \<Rightarrow> colorThreshold (config self))))
               images"
    by simp
  from c e f show ?thesis by blast
qed

theorem override_resolution_witness:
  "opt_blankColor \<lparr>opt_blankColor = Some ''#000000'', opt_threshold = Some 0, opt_saveGroups = None\<rparr>
      \<noteq> Some []
   \<and> concat (groupsOf (groupImages (newImageGrouper noConfig)
        [uniformImage 4 4 (0, 0, 0, 255), uniformImage 4 4 (255, 255, 255, 255)]
        \<lparr>opt_blankColor = Some ''#000000'', opt_threshold = Some 0, opt_saveGroups = None\<rparr>))
      = filter (\<lambda>img. \<not> isBlankImage (newImageGrouper noConfig) img (Some ''#000000'') (Some 10))
          [uniformImage 4 4 (0, 0, 0, 255), uniformImage 4 4 (255, 255, 255, 255)]
   \<and> filter (\<lambda>img. \<not> isBlankImage (newImageGrouper noConfig) img (Some ''#000000'') (Some 10))
          [uniformImage 4 4 (0, 0, 0, 255), uniformImage 4 4 (255, 255, 255, 255)]
      = [uniformImage 4 4 (255, 255, 255, 255)]
   \<and> opt_threshold \<lparr>opt_blankColor = Some [], opt_threshold = Some 20, opt_saveGroups = None\<rparr>
      \<noteq> Some 0
   \<and> concat (groupsOf (groupImages (newImageGrouper noConfig)
        [uniformImage 4 4 (250, 250, 250, 255), uniformImage 4 4 (0, 0, 0, 255)]
        \<lparr>opt_blankColor = Some [], opt_threshold = Some 20, opt_saveGroups = None\<rparr>))
      = filter (\<lambda>img. \<not> isBlankImage (newImageGrouper noConfig) img (Some ''#FFFFFF'') (Some 20))
          [uniformImage 4 4 (250, 250, 250, 255), uniformImage 4 4 (0, 0, 0, 255)]
   \<and> filter (\<lambda>img. \<not> isBlankImage (newImageGrouper noConfig) img (Some ''#FFFFFF'') (Some 20))
          [uniformImage 4 4 (250, 250, 250, 255), uniformImage 4 4 (0, 0, 0, 255)]
      = [uniformImage 4 4 (0, 0, 0, 255)]
   \<and> opt_blankColor noOptions \<noteq> Some [] \<and> opt_threshold noOptions \<noteq> Some 0
   \<and> concat (groupsOf (groupImages (newImageGrouper noConfig)
        [uniformImage 4 4 (250, 250, 250, 255), uniformImage 4 4 (255, 255, 255, 255)] noOptions))
      = [uniformImage 4 4 (250, 250, 250, 255)]"
proof -
  have h1: "opt_blankColor \<lparr>opt_blankColor = Some ''#000000'', opt_threshold = Some 0, opt_saveGroups = None\<rparr>
      \<noteq> Some []"
    by simp
  have h2: "opt_threshold \<lparr>opt_blankColor = Some [], opt_threshold = Some 20, opt_saveGroups = None\<rparr>
      \<noteq> Some 0"
    by simp
  have h3: "opt_blankColor noOptions \<noteq> Some []" and h4: "opt_threshold noOptions \<noteq> Some 0"
    by (simp_all add: noOptions_def)
  note r1 = override_resolution [of
      "\<lparr>opt_blankColor = Some ''#000000'', opt_threshold = Some 0, opt_saveGroups = None\<rparr>"
      "newImageGrouper noConfig"
      "[uniformImage 4 4 (0, 0, 0, 255), uniformImage 4 4 (255, 255, 255, 255)]",
      THEN conjunct1, rule_format, OF h1]
  note r2 = override_resolution [of
      "\<lparr>opt_blankColor = Some [], opt_threshold = Some 20, opt_saveGroups = None\<rparr>"
      "newImageGrouper noConfig"
      "[uniformImage 4 4 (250, 250, 250, 255), uniformImage 4 4 (0, 0, 0, 255)]",
      THEN conjunct2, THEN conjunct1, rule_format, OF h2]
  note r3 = override_resolution [of noOptions "newImageGrouper noConfig"
      "[uniformImage 4 4 (250, 250, 250, 255), uniformImage 4 4 (255, 255, 255, 255)]",
      THEN conjunct1, rule_format, OF h3]
  have e1: "concat (groupsOf (groupImages (newImageGrouper noConfig)
        [uniformImage 4 4 (0, 0, 0, 255), uniformImage 4 4 (255, 255, 255, 255)]
        \<lparr>opt_blankColor = Some ''#000000'', opt_threshold = Some 0, opt_saveGroups = None\<rparr>))
      = filter (\<lambda>img. \<not> isBlankImage (newImageGrouper noConfig) img (Some ''#000000'') (Some 10))
          [uniformImage 4 4 (0, 0, 0, 255), uniformImage 4 4 (255, 255, 255, 255)]"
    unfolding r1 by (simp add: orNumber_def newImageGrouper_def noConfig_def)
  have f1: "filter (\<lambda>img. \<not> isBlankImage (newImageGrouper noConfig) img (Some ''#000000'') (Some 10))
          [uniformImage 4 4 (0, 0, 0, 255), uniformImage 4 4 (255, 255, 255, 255)]
      = [uniformImage 4 4 (255, 255, 255, 255)]"
    by (simp add: isBlankImage_uniform hexToRgb_black)
  have e2: "concat (groupsOf (groupImages (newImageGrouper noConfig)
        [uniformImage 4 4 (250, 250, 250, 255), uniformImage 4 4 (0, 0, 0, 255)]
        \<lparr>opt_blankColor = Some [], opt_threshold = Some 20, opt_saveGroups = None\<rparr>))
      = filter (\<lambda>img. \<not> isBlankImage (newImageGrouper noConfig) img (Some ''#FFFFFF'') (Some 20))
          [uniformImage 4 4 (250, 250, 250, 255), uniformImage 4 4 (0, 0, 0, 255)]"
    unfolding r2 by (simp add: orString_def newImageGrouper_def noConfig_def)
  have f2: "filter (\<lambda>img. \<not> isBlankImage (newImageGrouper noConfig) img (Some ''#FFFFFF'') (Some 20))
          [uniformImage 4 4 (250, 250, 250, 255), uniformImage 4 4 (0, 0, 0, 255)]
      = [uniformImage 4 4 (0, 0, 0, 255)]"
    by (simp add: isBlankImage_uniform hexToRgb_white)
  have e3: "concat (groupsOf (groupImages (newImageGrouper noConfig)
        [uniformImage 4 4 (250, 250, 250, 255), uniformImage 4 4 (255, 255, 255, 255)] noOptions))
      = [uniformImage 4 4 (250, 250, 250, 255)]"
    unfolding r3
    by (simp add: isBlankImage_uniform hexToRgb_white newImageGrouper_def noConfig_def
          noOptions_def orNumber_def)
  from h1 h2 h3 h4 e1 f1 e2 f2 e3 show ?thesis by blast
qed

subsection \<open>Classification\<close>

text \<open>
  C2, as the spec states it, fails. The code adds the three absolute channel differences
  of a sample point without dividing by 3, and divides the total over the points by the
  number of points. An image whose every pixel is (255, 255, 245) is at a mean absolute
  channel difference of 10/3 from white, which is at most the threshold 5, yet the code
  computes 10 and answers non-blank.
\<close>

theorem isBlankImage_mean_counterexample:
  "\<not> isBlankImage (newImageGrouper noConfig) (uniformImage 4 4 (255, 255, 245, 255))
       (Some ''#FFFFFF'') (Some 5)
   \<and> specAverageDiff (newImageGrouper noConfig) (uniformImage 4 4 (255, 255, 245, 255))
       ''#FFFFFF'' \<le> 5"
  by (simp add: isBlankImage_def avgDiff_uniform hexToRgb_white specAverageDiff_def
        meanAbsChannelDiff_def samplePoints_div)

text \<open>
  C2, amended. For every image, blank colour and threshold, \<^verbatim>\<open>isBlankImage\<close> returns true
  if and only if the average over the 3 sample points of the per-point sum of absolute
  channel differences \<^verbatim>\<open>|dr| + |dg| + |db|\<close> (not divided by 3), computed as the code
  computes it, the total of the three sums divided by 3 and rounded to the nearest double,
  is at most the threshold; that is, if and only if the double nearest to three times the
  spec's averaged mean absolute channel difference is at most the threshold.
\<close>

theorem isBlankImage_sum_abs:
  "isBlankImage self img (Some c) (Some t) =
     (toDouble
        (of_int
           (sumAbsChannelDiff (hexToRgb self c)
              (getImageData img (width img div 2) (height img div 2))
            + sumAbsChannelDiff (hexToRgb self c)
                (getImageData img (width img div 4) (height img div 4))
            + sumAbsChannelDiff (hexToRgb self c)
                (getImageData img (3 * width img div 4) (3 * height img div 4))) / 3) \<le> t)
   \<and> isBlankImage self img (Some c) (Some t) = (toDouble (3 * specAverageDiff self img c) \<le> t)"
proof -
  have m: "3 * meanAbsChannelDiff target px = of_int (sumAbsChannelDiff target px)" for target px
    by (cases px) (simp add: meanAbsChannelDiff_def sumAbsChannelDiff_def)
  have s: "3 * specAverageDiff self img c = of_int (totalDiff self img c) / 3"
    by (simp add: specAverageDiff_def samplePoints_div totalDiff_pixels m [symmetric])
  have a: "isBlankImage self img (Some c) (Some t) =
      (toDouble (of_int (totalDiff self img c) / 3) \<le> t)"
    by (simp add: isBlankImage_def avgDiff_total)
  show ?thesis
    unfolding s a by (simp only: totalDiff_pixels)
qed

text \<open>
  An instance in which the rounding decides. On a 4 by 4 white image whose pixel (2, 2) is
  (255, 255, 254) the total is 1, and the double nearest to 1/3 lies below 1/3: with that
  double as threshold the image is blank, although 1/3 exceeds the threshold.
\<close>

lemma isBlankImage_rounded_third:
  "totalDiff self (spotImage 4 4 (255, 255, 255, 255) 2 2 (255, 255, 254, 255)) ''#FFFFFF'' = 1
   \<and> isBlankImage self (spotImage 4 4 (255, 255, 255, 255) 2 2 (255, 255, 254, 255))
        (Some ''#FFFFFF'') (Some (6004799503160661 / 18014398509481984))
   \<and> (6004799503160661 / 18014398509481984 :: real) < 1 / 3"
proof -
  have t: "totalDiff self (spotImage 4 4 (255, 255, 255, 255) 2 2 (255, 255, 254, 255))
      ''#FFFFFF'' = 1"
    by (simp add: totalDiff_pixels sumAbsChannelDiff_def hexToRgb_white)
  have "avgDiff self (spotImage 4 4 (255, 255, 255, 255) 2 2 (255, 255, 254, 255)) ''#FFFFFF''
      = 6004799503160661 / 18014398509481984"
    unfolding avgDiff_total t using one_third by simp
  with t show ?thesis
    by (simp add: isBlankImage_def)
qed

text \<open>
  C5. When the average difference that \<^verbatim>\<open>isBlankImage\<close> computes equals the threshold, the
  image is classified blank; when it is strictly greater, the image is classified
  non-blank.
\<close>

theorem threshold_inclusive:
  "(avgDiff self img c = t \<longrightarrow> isBlankImage self img (Some c) (Some t))
   \<and> (avgDiff self img c > t \<longrightarrow> \<not> isBlankImage self img (Some c) (Some t))"
  by (simp add: isBlankImage_def)

theorem threshold_inclusive_witness:
  "avgDiff (newImageGrouper noConfig) (uniformImage 4 4 (255, 255, 245, 255)) ''#FFFFFF'' = 10
   \<and> isBlankImage (newImageGrouper noConfig) (uniformImage 4 4 (255, 255, 245, 255)) (Some ''#FFFFFF'') (Some 10)
   \<and> avgDiff (newImageGrouper noConfig) (uniformImage 4 4 (255, 255, 245, 255)) ''#FFFFFF'' > 9
   \<and> \<not> isBlankImage (newImageGrouper noConfig) (uniformImage 4 4 (255, 255, 245, 255)) (Some ''#FFFFFF'') (Some 9)"
  using threshold_inclusive [of "newImageGrouper noConfig" "uniformImage 4 4 (255, 255, 245, 255)" "''#FFFFFF''" 10]
    threshold_inclusive [of "newImageGrouper noConfig" "uniformImage 4 4 (255, 255, 245, 255)" "''#FFFFFF''" 9]
  by (simp add: avgDiff_uniform hexToRgb_white)

subsection \<open>Sampling\<close>

text \<open>
  C9. The classifier samples exactly 3 points, at \<open>(\<lfloor>w/2\<rfloor>, \<lfloor>h/2\<rfloor>)\<close>, \<open>(\<lfloor>w/4\<rfloor>, \<lfloor>h/4\<rfloor>)\<close>
  and \<open>(\<lfloor>3w/4\<rfloor>, \<lfloor>3h/4\<rfloor>)\<close>, for the image's own declared width \<open>w\<close> and height \<open>h\<close>
  (\<open>div\<close> on \<open>int\<close> rounds down): the total difference is the sum, over the bytes that
  \<^verbatim>\<open>getImageData\<close> returns at these three coordinates, of the absolute differences of the
  first three bytes to the channels of the blank colour, and the answer is that total,
  divided by 3, compared against the threshold.
\<close>

theorem samplePoints_three:
  "samplePoints img =
     [(width img div 2, height img div 2),
      (width img div 4, height img div 4),
      (3 * width img div 4, 3 * height img div 4)]
   \<and> length (samplePoints img) = 3
   \<and> totalDiff self img c =
       (case getImageData img (width img div 2) (height img div 2) of
          (p0, p1, p2, p3) \<Rightarrow>
            \<bar>uint p0 - r (hexToRgb self c)\<bar> + \<bar>uint p1 - g (hexToRgb self c)\<bar>
              + \<bar>uint p2 - b (hexToRgb self c)\<bar>)
       + (case getImageData img (width img div 4) (height img div 4) of
            (p0, p1, p2, p3) \<Rightarrow>
              \<bar>uint p0 - r (hexToRgb self c)\<bar> + \<bar>uint p1 - g (hexToRgb self c)\<bar>
                + \<bar>uint p2 - b (hexToRgb self c)\<bar>)
       + (case getImageData img (3 * width img div 4) (3 * height img div 4) of
            (p0, p1, p2, p3) \<Rightarrow>
              \<bar>uint p0 - r (hexToRgb self c)\<bar> + \<bar>uint p1 - g (hexToRgb self c)\<bar>
                + \<bar>uint p2 - b (hexToRgb self c)\<bar>)
   \<and> isBlankImage self img (Some c) (Some t) =
       (toDouble (of_int (totalDiff self img c) / 3) \<le> t)"
proof -
  have a: "totalDiff self img c =
       (case getImageData img (width img div 2) (height img div 2) of
          (p0, p1, p2, p3) \<Rightarrow>
            \<bar>uint p0 - r (hexToRgb self c)\<bar> + \<bar>uint p1 - g (hexToRgb self c)\<bar>
              + \<bar>uint p2 - b (hexToRgb self c)\<bar>)
       + (case getImageData img (width img div 4) (height img div 4) of
            (p0, p1, p2, p3) \<Rightarrow>
              \<bar>uint p0 - r (hexToRgb self c)\<bar> + \<bar>uint p1 - g (hexToRgb self c)\<bar>
                + \<bar>uint p2 - b (hexToRgb self c)\<bar>)
       + (case getImageData img (3 * width img div 4) (3 * height img div 4) of
            (p0, p1, p2, p3) \<Rightarrow>
              \<bar>uint p0 - r (hexToRgb self c)\<bar> + \<bar>uint p1 - g (hexToRgb self c)\<bar>
                + \<bar>uint p2 - b (hexToRgb self c)\<bar>)"
    by (simp only: totalDiff_pixels sumAbsChannelDiff_def)
  have b: "isBlankImage self img (Some c) (Some t) =
       (toDouble (of_int (totalDiff self img c) / 3) \<le> t)"
    by (simp add: isBlankImage_def avgDiff_total)
  have d: "length (samplePoints img) = 3"
    by (simp add: samplePoints_div)
  from samplePoints_div [of img] a b d show ?thesis by blast
qed



subsection \<open>Colour distance\<close>

text \<open>
  C8. \<^verbatim>\<open>colorDifference\<close> is the Euclidean distance in RGB space of the two parsed colours;
  the distance of white to itself is 0 and the distance of black to white is
  \<open>sqrt (3 * 255\<^sup>2)\<close>.
\<close>

theorem colorDifference_euclidean:
  "colorDifference self hex1 hex2 = distance (hexToRgb self hex1) (hexToRgb self hex2)
   \<and> colorDifference self ''#FFFFFF'' ''#FFFFFF'' = 0
   \<and> colorDifference self ''#000000'' ''#FFFFFF'' = sqrt (3 * 255\<^sup>2)
   \<and> distance \<lparr>r = 255, g = 255, b = 255\<rparr> \<lparr>r = 255, g = 255, b = 255\<rparr> = 0
   \<and> distance \<lparr>r = 0, g = 0, b = 0\<rparr> \<lparr>r = 255, g = 255, b = 255\<rparr> = sqrt (3 * 255\<^sup>2)"
proof -
  have gen: "colorDifference self h1 h2 = distance (hexToRgb self h1) (hexToRgb self h2)" for h1 h2
    by (simp add: colorDifference_def distance_def Let_def)
  have d0: "distance \<lparr>r = 255, g = 255, b = 255\<rparr> \<lparr>r = 255, g = 255, b = 255\<rparr> = 0"
    by (simp add: distance_def)
  have d1: "distance \<lparr>r = 0, g = 0, b = 0\<rparr> \<lparr>r = 255, g = 255, b = 255\<rparr> = sqrt (3 * 255\<^sup>2)"
    by (simp add: distance_def)
  show ?thesis
    using d0 d1 by (simp add: gen hexToRgb_white hexToRgb_black)
qed

subsection \<open>Parsing a colour\<close>

text \<open>
  C7. \<^verbatim>\<open>hexToRgb\<close> maps a string of exactly 6 hexadecimal digits of either case, with or
  without a leading \<^verbatim>\<open>#\<close>, to the colour of its three digit pairs; every other string
  gives the fallback (255, 255, 255), and no input fails. In particular
  \<^verbatim>\<open>hexToRgb("#FFFFFF")\<close> and \<^verbatim>\<open>hexToRgb("not-a-color")\<close> are (255, 255, 255).
\<close>

theorem hexToRgb_shapes:
  "(sixHexDigits ds \<longrightarrow> hexToRgb self ds = channels ds \<and> hexToRgb self (CHR ''#'' # ds) = channels ds)
   \<and> (\<not> sixHexDigits hex \<and> \<not> (\<exists>ds'. hex = CHR ''#'' # ds' \<and> sixHexDigits ds')
        \<longrightarrow> hexToRgb self hex = \<lparr>r = 255, g = 255, b = 255\<rparr>)
   \<and> hexToRgb self ''#FFFFFF'' = \<lparr>r = 255, g = 255, b = 255\<rparr>
   \<and> hexToRgb self ''not-a-color'' = \<lparr>r = 255, g = 255, b = 255\<rparr>"
proof -
  have "hexToRgb self ''not-a-color'' = \<lparr>r = 255, g = 255, b = 255\<rparr>"
    by (simp add: hexToRgb_def execHex_def hexPair_def hexClass_def)
  then show ?thesis
    using hexToRgb_digits [of ds self] hexToRgb_fallback [of hex self] hexToRgb_white [of self]
    by blast
qed

theorem hexToRgb_shapes_witness:
  "sixHexDigits ''ff00Aa''
   \<and> hexToRgb (newImageGrouper noConfig) ''ff00Aa'' = \<lparr>r = 255, g = 0, b = 170\<rparr>
   \<and> hexToRgb (newImageGrouper noConfig) ''#ff00Aa'' = \<lparr>r = 255, g = 0, b = 170\<rparr>
   \<and> \<not> sixHexDigits ''#12345''
   \<and> \<not> (\<exists>ds'. ''#12345'' = CHR ''#'' # ds' \<and> sixHexDigits ds')
   \<and> hexToRgb (newImageGrouper noConfig) ''#12345'' = \<lparr>r = 255, g = 255, b = 255\<rparr>"
proof -
  have a: "sixHexDigits ''ff00Aa''"
    by (simp add: sixHexDigits_def specHexDigit_def)
  have c: "channels ''ff00Aa'' = \<lparr>r = 255, g = 0, b = 170\<rparr>"
    by (simp add: channels_def specHexValue_def)
  have n1: "\<not> sixHexDigits ''#12345''"
    by (simp add: sixHexDigits_def specHexDigit_def)
  have n2: "\<not> (\<exists>ds'. ''#12345'' = CHR ''#'' # ds' \<and> sixHexDigits ds')"
    by (simp add: sixHexDigits_def)
  show ?thesis
    using hexToRgb_shapes [of "''ff00Aa''" "newImageGrouper noConfig" "''#12345''"] a c n1 n2
    by simp
qed

end
